theory Spec2Isabelle
  imports Main
begin

section \<open>Values thrown and JavaScript conventions\<close>

text \<open>
  A value thrown by the TypeScript code. Every \<open>catch\<close> of the source reads the thrown
  value through \<open>error instanceof Error ? error.message : ...\<close>, so two shapes are
  told apart: an \<open>Error\<close> instance with its message (a \<open>RangeError\<close> is one), and any
  other thrown value with its rendering as a string.
\<close>

datatype js_error = Error string | Thrown string

fun message_or_unknown :: "js_error \<Rightarrow> string" where
  "message_or_unknown (Error m) = m"
| "message_or_unknown (Thrown v) = ''Unknown error''"

fun message_or_String :: "js_error \<Rightarrow> string" where
  "message_or_String (Error m) = m"
| "message_or_String (Thrown v) = v"

text \<open>
  The truthiness of a value of type \<open>bigint | undefined\<close>: \<open>undefined\<close> and \<open>0n\<close> are
  falsy, every other bigint is truthy.
\<close>

fun truthy :: "int option \<Rightarrow> bool" where
  "truthy None = False"
| "truthy (Some n) = (n \<noteq> 0)"

text \<open>
  \<open>new Date(ms).toISOString()\<close>: the string is only handed to the logger, so the model
  keeps what the caller can observe, namely whether the call throws. A time value beyond
  8.64e15 milliseconds from the epoch is an invalid date and \<open>toISOString\<close> throws a
  \<open>RangeError\<close>. Timestamps are modelled as unbounded integers; \<open>Number(bigint)\<close> is
  exact in the safe-integer range, which contains every valid time value.
\<close>

definition Date_toISOString :: "int \<Rightarrow> js_error + unit" where
  "Date_toISOString ms =
     (if \<bar>ms\<bar> \<le> 8640000000000000 then Inr () else Inl (Error ''Invalid time value''))"

section \<open>Data model (types/aavegotchi.ts)\<close>

text \<open>
  \<open>AavegotchiInfo\<close>: the snapshot of one token. The source copies 22 attributes from the
  value read on chain into the record without changing any of them; no decision reads
  an attribute other than \<open>tokenId\<close>, \<open>status\<close> and \<open>lastInteracted\<close>, and the record
  keeps those together with a few of the others. An attribute of type \<open>bigint\<close> is an
  \<open>int\<close>; an optional property (\<open>sharedLastInteracted?: bigint\<close>) is an \<open>option\<close>, with
  \<open>None\<close> for \<open>undefined\<close>.
\<close>

record AavegotchiInfo =
  tokenId :: int
  name :: string
  owner :: string
  status :: int
  kinship :: int
  lastInteracted :: int
  locked :: bool

record PetTargetWithTiming =
  address :: string
  allTokenIds :: "int list"
  successfulAavegotchis :: "AavegotchiInfo list"
  sharedLastInteracted :: "int option"

text \<open>The value returned by \<open>verifyPettingSuccess\<close>: \<open>{ success, updatedTokens }\<close>.\<close>

record verification =
  v_success :: bool
  updatedTokens :: "int list"

section \<open>The ledger as AavegotchiContract reads and writes it\<close>

text \<open>
  The calls \<open>AavegotchiContract\<close> makes on the viem client, each with its outcome:
  a value, or the value thrown.
\<close>

record chain =
  tokenIdsOfOwner :: "string \<Rightarrow> js_error + nat list"
  read_getAavegotchi :: "int \<Rightarrow> js_error + AavegotchiInfo"
  write_interact :: "int list \<Rightarrow> js_error + string"
  receipt_success :: "string \<Rightarrow> js_error + bool"
  getBlockNumber :: "js_error + int"

section \<open>AavegotchiContract (services/contract.ts)\<close>

subsection \<open>getAllAavegotchisOfOwnerWithTiming\<close>

text \<open>
  The \<open>for (const tokenId of allTokenIds)\<close> loop with its two accumulators. A read that
  throws is caught inside the loop body and the loop goes on. The \<open>logger.debug\<close> call
  after the assignment of \<open>sharedLastInteracted\<close> formats a date and may throw, but it
  runs after both accumulators were written and inside the same \<open>try\<close>, so it changes
  neither.
\<close>

fun fetch_loop ::
  "chain \<Rightarrow> int list \<Rightarrow> AavegotchiInfo list \<Rightarrow> int option \<Rightarrow> AavegotchiInfo list \<times> int option"
where
  "fetch_loop C [] successful shared = (successful, shared)"
| "fetch_loop C (tid # rest) successful shared =
     (case read_getAavegotchi C tid of
        Inl e \<Rightarrow> fetch_loop C rest successful shared
      | Inr gotchi \<Rightarrow>
          if status gotchi \<noteq> 0
          then fetch_loop C rest (successful @ [gotchi])
                 (if \<not> truthy shared then Some (lastInteracted gotchi) else shared)
          else fetch_loop C rest successful shared)"

definition getAllAavegotchisOfOwnerWithTiming ::
  "chain \<Rightarrow> string \<Rightarrow> js_error + PetTargetWithTiming"
where
  "getAllAavegotchisOfOwnerWithTiming C ownerAddress =
     (case tokenIdsOfOwner C ownerAddress of
        Inl e \<Rightarrow> Inl (Error (''Failed to fetch Aavegotchis: '' @ message_or_unknown e))
      | Inr tokenIds32 \<Rightarrow>
          if length tokenIds32 = 0
          then Inr \<lparr>address = ownerAddress, allTokenIds = [],
                    successfulAavegotchis = [], sharedLastInteracted = None\<rparr>
          else
            (let allIds = map int tokenIds32;
                 r = fetch_loop C allIds [] None
             in Inr \<lparr>address = ownerAddress, allTokenIds = allIds,
                      successfulAavegotchis = fst r, sharedLastInteracted = snd r\<rparr>))"

subsection \<open>getAllAavegotchisOfOwner\<close>

fun fetch_all :: "chain \<Rightarrow> nat list \<Rightarrow> AavegotchiInfo list \<Rightarrow> AavegotchiInfo list" where
  "fetch_all C [] aavegotchis = aavegotchis"
| "fetch_all C (tokenId32 # rest) aavegotchis =
     (case read_getAavegotchi C (int tokenId32) of
        Inl e \<Rightarrow> fetch_all C rest aavegotchis
      | Inr gotchi \<Rightarrow> fetch_all C rest (aavegotchis @ [gotchi]))"

definition getAllAavegotchisOfOwner :: "chain \<Rightarrow> string \<Rightarrow> js_error + AavegotchiInfo list" where
  "getAllAavegotchisOfOwner C ownerAddress =
     (case tokenIdsOfOwner C ownerAddress of
        Inl e \<Rightarrow> Inl (Error (''Failed to fetch Aavegotchis: '' @ message_or_unknown e))
      | Inr tokenIds32 \<Rightarrow>
          if length tokenIds32 = 0 then Inr []
          else Inr (filter (\<lambda>gotchi. status gotchi \<noteq> 0) (fetch_all C tokenIds32 [])))"

subsection \<open>getAavegotchi\<close>

text \<open>
  The single-token read used by the verifier. Its \<open>logger.debug\<close> formats
  \<open>lastInteracted\<close> as a date inside the \<open>try\<close>, so a value outside the date range makes
  the whole call throw, like a failed read.
\<close>

definition getAavegotchi :: "chain \<Rightarrow> int \<Rightarrow> js_error + AavegotchiInfo" where
  "getAavegotchi C tid =
     (case read_getAavegotchi C tid of
        Inl e \<Rightarrow> Inl (Error (''Failed to fetch Aavegotchi: '' @ message_or_unknown e))
      | Inr gotchi \<Rightarrow>
          (case Date_toISOString (lastInteracted gotchi * 1000) of
             Inl e \<Rightarrow> Inl (Error (''Failed to fetch Aavegotchi: '' @ message_or_unknown e))
           | Inr u \<Rightarrow> Inr gotchi))"

subsection \<open>interact\<close>

definition interact :: "chain \<Rightarrow> int list \<Rightarrow> js_error + string" where
  "interact C tokenIds =
     (case write_interact C tokenIds of
        Inl e \<Rightarrow> Inl (Error (''Failed to pet Aavegotchis: '' @ message_or_unknown e))
      | Inr hash \<Rightarrow>
          (case receipt_success C hash of
             Inl e \<Rightarrow> Inl (Error (''Failed to pet Aavegotchis: '' @ message_or_unknown e))
           | Inr ok \<Rightarrow>
               if ok then Inr hash
               else Inl (Error (''Failed to pet Aavegotchis: '' @ ''Transaction failed''))))"

definition checkConnection :: "chain \<Rightarrow> bool" where
  "checkConnection C = (case getBlockNumber C of Inl e \<Rightarrow> False | Inr blockNumber \<Rightarrow> True)"

subsection \<open>verifyPettingSuccess\<close>

text \<open>
  The verification loop. \<open>now tid\<close> is the reading of \<open>Date.now()\<close> (milliseconds) taken
  while token \<open>tid\<close> is handled; \<open>Math.floor(Date.now() / 1000)\<close> is \<open>div 1000\<close>.
  The first branch is \<open>preInteractionTiming && gotchi.lastInteracted > preInteractionTiming\<close>,
  the second \<open>!preInteractionTiming\<close>. The \<open>logger.debug\<close> after the first \<open>push\<close> formats
  two dates that were both formatted before without throwing (the timing at the head of
  the function, \<open>lastInteracted\<close> in \<open>getAavegotchi\<close>).
\<close>

fun verify_loop :: "chain \<Rightarrow> (int \<Rightarrow> int) \<Rightarrow> int option \<Rightarrow> int list \<Rightarrow> int list \<Rightarrow> int list" where
  "verify_loop C now pre [] updated = updated"
| "verify_loop C now pre (tid # rest) updated =
     (case getAavegotchi C tid of
        Inl e \<Rightarrow> verify_loop C now pre rest updated
      | Inr gotchi \<Rightarrow>
          if truthy pre \<and> (case pre of None \<Rightarrow> False | Some t \<Rightarrow> lastInteracted gotchi > t)
          then verify_loop C now pre rest (updated @ [tid])
          else if \<not> truthy pre
          then (let oneHourAgo = now tid div 1000 - 3600
                in if lastInteracted gotchi > oneHourAgo
                   then verify_loop C now pre rest (updated @ [tid])
                   else verify_loop C now pre rest updated)
          else verify_loop C now pre rest updated)"

text \<open>
  The body of the outer \<open>try\<close>. Its first statement logs
  \<open>preInteractionTiming ? new Date(Number(preInteractionTiming) * 1000).toISOString() : 'unknown'\<close>,
  which throws for a truthy timing outside the date range.
\<close>

definition verify_body ::
  "chain \<Rightarrow> (int \<Rightarrow> int) \<Rightarrow> int list \<Rightarrow> int option \<Rightarrow> js_error + verification"
where
  "verify_body C now tokenIds pre =
     (case (case pre of
              None \<Rightarrow> Inr ()
            | Some t \<Rightarrow> if t \<noteq> 0 then Date_toISOString (t * 1000) else Inr ()) of
        Inl e \<Rightarrow> Inl e
      | Inr u \<Rightarrow>
          (let updated = verify_loop C now pre tokenIds []
           in Inr \<lparr>v_success = (length updated > 0), updatedTokens = updated\<rparr>))"

definition verifyPettingSuccess ::
  "chain \<Rightarrow> (int \<Rightarrow> int) \<Rightarrow> int list \<Rightarrow> int option \<Rightarrow> verification"
where
  "verifyPettingSuccess C now tokenIds pre =
     (case verify_body C now tokenIds pre of
        Inl e \<Rightarrow> \<lparr>v_success = True, updatedTokens = []\<rparr>
      | Inr r \<Rightarrow> r)"

section \<open>Rendering numbers and messages\<close>

text \<open>Template literals render a number in decimal.\<close>

fun digits :: "nat \<Rightarrow> string" where
  "digits n = (if n < 10 then [char_of (48 + n)] else digits (n div 10) @ [char_of (48 + n mod 10)])"

declare digits.simps [simp del]

definition toString :: "int \<Rightarrow> string" where
  "toString i = (if i < 0 then CHR ''-'' # digits (nat (- i)) else digits (nat i))"

definition nl :: string where
  "nl = [CHR 0x0A]"

text \<open>The emoji of the message texts, as their UTF-8 bytes.\<close>

definition emoji_party :: string where
  "emoji_party = [CHR 0xF0, CHR 0x9F, CHR 0x8E, CHR 0x89]"

definition emoji_rocket :: string where
  "emoji_rocket = [CHR 0xF0, CHR 0x9F, CHR 0x9A, CHR 0x80]"

definition emoji_stop :: string where
  "emoji_stop = [CHR 0xF0, CHR 0x9F, CHR 0x9B, CHR 0x91]"

definition emoji_cycle :: string where
  "emoji_cycle = [CHR 0xF0, CHR 0x9F, CHR 0x94, CHR 0x84]"

text \<open>\<open>${tokenIds.length} Aavegotchi${tokenIds.length > 1 ? 's' : ''}\<close>\<close>

definition count_Aavegotchis :: "int list \<Rightarrow> string" where
  "count_Aavegotchis tokenIds =
     toString (int (length tokenIds)) @ '' Aavegotchi'' @ (if length tokenIds > 1 then ''s'' else [])"

section \<open>PetSitterService (services/petSitter.ts)\<close>

record BotStatus =
  isRunning :: bool
  lastPetTime :: "int option"
  nextPetTime :: "int option"
  totalPets :: int
  errors :: int
  currentTarget :: "string option"

record PetResult =
  success :: bool
  transactionHash :: "string option"
  error :: "string option"
  petCount :: int

text \<open>
  The calls made on \<open>TelegramService\<close>, with their arguments. Delivery itself
  (\<open>sendNotification\<close>) catches everything it throws, so a call never throws to the
  service.
\<close>

datatype notification =
  sendSuccess string "string option"
| sendError string "js_error option"
| sendInfo string

text \<open>The callbacks handed to \<open>setInterval\<close> and \<open>setTimeout\<close>.\<close>

datatype callback =
  MonitoringTick
| HealthCheck
| InitialCheck
| ControlTransaction "int list" string

text \<open>The values of \<open>config\<close> and of the contract's account that the service reads.\<close>

record config =
  targetAddress :: string
  petIntervalHours :: int
  healthCheckIntervalMinutes :: int
  accountAddress :: string

definition petIntervalMs :: "config \<Rightarrow> int" where
  "petIntervalMs cfg = petIntervalHours cfg * 60 * 60 * 1000"

text \<open>
  The state the service owns (\<open>this.isRunning\<close>, \<open>this.stats\<close>, the two interval handles)
  and what it has done to its collaborators so far: the notifications sent, the
  arguments of every \<open>contract.interact\<close> call, the interval timers that are active
  (handle, period in milliseconds, callback) and the timeouts set (delay, callback).
\<close>

record service =
  this_isRunning :: bool
  stats :: BotStatus
  monitoringInterval :: "nat option"
  healthCheckInterval :: "nat option"
  telegram :: "notification list"
  interact_calls :: "int list list"
  intervals :: "(nat \<times> int \<times> callback) list"
  timeouts :: "(int \<times> callback) list"
  next_handle :: nat

text \<open>The constructor: \<open>new PetSitterService()\<close>.\<close>

definition new_PetSitterService :: "config \<Rightarrow> service" where
  "new_PetSitterService cfg =
     \<lparr>this_isRunning = False,
      stats = \<lparr>isRunning = False, lastPetTime = None, nextPetTime = None,
               totalPets = 0, errors = 0, currentTarget = Some (targetAddress cfg)\<rparr>,
      monitoringInterval = None, healthCheckInterval = None,
      telegram = [], interact_calls = [], intervals = [], timeouts = [], next_handle = 0\<rparr>"

text \<open>
  What one tick sees of the outside: the ledger before the submission, the ledger the
  verification reads after it, and the readings of \<open>Date.now()\<close> at the places of the
  source that take one.
\<close>

record env =
  chain_now :: chain
  chain_after :: chain
  now_calc :: int
  now_check :: int
  now_verify :: "int \<Rightarrow> int"
  now_pet :: int

subsection \<open>calculateNextPetTimeWithTiming\<close>

text \<open>
  \<open>now\<close> is the reading of \<open>Date.now()\<close> inside the function. The shared timing is used
  under \<open>if (petTarget.sharedLastInteracted)\<close>; the \<open>logger.debug\<close> of that branch
  formats it as a date and may throw.
\<close>

definition calculateNextPetTimeWithTiming ::
  "config \<Rightarrow> int \<Rightarrow> PetTargetWithTiming \<Rightarrow> js_error + int"
where
  "calculateNextPetTimeWithTiming cfg now petTarget =
     (if length (allTokenIds petTarget) = 0 then Inr (now + petIntervalMs cfg)
      else if truthy (sharedLastInteracted petTarget) then
        (let lastInt = the (sharedLastInteracted petTarget) in
         case Date_toISOString (lastInt * 1000) of
           Inl e \<Rightarrow> Inl e
         | Inr u \<Rightarrow> Inr ((lastInt * 1000) + petIntervalMs cfg))
      else Inr (now + petIntervalMs cfg))"

text \<open>The older variant, still in the class: the most recent \<open>lastInteracted\<close> decides.\<close>

definition calculateNextPetTime :: "config \<Rightarrow> int \<Rightarrow> AavegotchiInfo list \<Rightarrow> int" where
  "calculateNextPetTime cfg now aavegotchis =
     (if length aavegotchis = 0 then now + petIntervalMs cfg
      else (Max (set (map lastInteracted aavegotchis)) * 1000) + petIntervalMs cfg)"

subsection \<open>petAllTokenIds\<close>

text \<open>
  The callback of the \<open>setTimeout\<close> of 10 seconds: the control transaction. It submits
  the same ids again and notifies the outcome; it writes no field of \<open>this.stats\<close>.
\<close>

definition controlTransaction :: "chain \<Rightarrow> int list \<Rightarrow> string \<Rightarrow> service \<Rightarrow> service" where
  "controlTransaction C tokenIds hash s =
     (let s0 = s\<lparr>interact_calls := interact_calls s @ [tokenIds]\<rparr>
      in case interact C tokenIds of
           Inr controlHash \<Rightarrow>
             s0\<lparr>telegram := telegram s0 @
                  [sendInfo (emoji_cycle @ '' Control transaction sent for '' @
                     count_Aavegotchis tokenIds @ ''!'' @ nl @ nl @
                     ''Control TX: '' @ controlHash @ nl @
                     ''Original TX: '' @ hash)]\<rparr>
         | Inl controlError \<Rightarrow>
             s0\<lparr>telegram := telegram s0 @
                  [sendError (''Control transaction failed for '' @ count_Aavegotchis tokenIds)
                     (Some controlError)]\<rparr>)"

text \<open>
  The action run. The call of \<open>contract.interact\<close> is recorded whether it returns or
  throws. After a submission that returned, the code waits 2 seconds (no effect on the
  state), sets the timeout of the control transaction, and verifies; the \<open>catch\<close> at the
  end is reached by a throwing submission only, since the verification and the
  notifications return in every case.
\<close>

definition petAllTokenIds ::
  "env \<Rightarrow> int list \<Rightarrow> int option \<Rightarrow> service \<Rightarrow> PetResult \<times> service"
where
  "petAllTokenIds E tokenIds shared s =
     (let s0 = s\<lparr>interact_calls := interact_calls s @ [tokenIds]\<rparr>
      in case interact (chain_now E) tokenIds of
           Inr hash \<Rightarrow>
             (let s1 = s0\<lparr>timeouts := timeouts s0 @ [(10000, ControlTransaction tokenIds hash)]\<rparr>;
                  v = verifyPettingSuccess (chain_after E) (now_verify E) tokenIds shared
              in if v_success v then
                   (let st = (stats s1)\<lparr>totalPets := totalPets (stats s1) + 1\<rparr>;
                        st' = st\<lparr>lastPetTime := Some (now_pet E)\<rparr>;
                        successMessage =
                          emoji_party @ '' Successfully petted '' @ count_Aavegotchis tokenIds @
                          ''!'' @ nl @ nl @
                          ''Transaction: '' @ hash @ nl @
                          ''Verified: '' @ toString (int (length (updatedTokens v))) @
                          '' tokens'' @ nl @
                          ''Total pets: '' @ toString (totalPets st') @ nl @
                          ''Control transaction will be sent in 10 seconds''
                    in (\<lparr>success = True, transactionHash = Some hash, error = None,
                         petCount = int (length tokenIds)\<rparr>,
                        s1\<lparr>stats := st',
                           telegram := telegram s1 @ [sendSuccess successMessage (Some hash)]\<rparr>))
                 else
                   (\<lparr>success = False, transactionHash = Some hash,
                     error = Some ''Petting verification failed - likely hit cooldown period'',
                     petCount = 0\<rparr>, s1))
         | Inl e \<Rightarrow>
             (\<lparr>success = False, transactionHash = None,
               error = Some (message_or_String e), petCount = 0\<rparr>,
              s0\<lparr>stats := (stats s0)\<lparr>errors := errors (stats s0) + 1\<rparr>,
                 telegram := telegram s0 @
                   [sendError (''Failed to pet '' @ count_Aavegotchis tokenIds) (Some e)]\<rparr>))"

subsection \<open>checkAndPetIfNeeded\<close>

text \<open>The \<open>catch\<close> of the tick: count the error, notify, go on.\<close>

definition tick_catch :: "js_error \<Rightarrow> service \<Rightarrow> service" where
  "tick_catch e s =
     s\<lparr>stats := (stats s)\<lparr>errors := errors (stats s) + 1\<rparr>,
       telegram := telegram s @
         [sendError ''Error occurred while checking pet status. Will retry on next cycle.''
            (Some e)]\<rparr>"

text \<open>
  \<open>Math.ceil((nextPetTime - now) / (60 * 1000))\<close> is the ceiling of an exact quotient of
  integers. The log line of the waiting branch is written when the minutes left are a
  multiple of 30; it formats \<open>nextPetTime\<close> as a date and may throw.
\<close>

definition checkAndPetIfNeeded :: "config \<Rightarrow> env \<Rightarrow> service \<Rightarrow> service" where
  "checkAndPetIfNeeded cfg E s =
     (case getAllAavegotchisOfOwnerWithTiming (chain_now E) (targetAddress cfg) of
        Inl e \<Rightarrow> tick_catch e s
      | Inr petTargetWithTiming \<Rightarrow>
          if length (allTokenIds petTargetWithTiming) = 0 then s
          else
            (case calculateNextPetTimeWithTiming cfg (now_calc E) petTargetWithTiming of
               Inl e \<Rightarrow> tick_catch e s
             | Inr nextPet \<Rightarrow>
                 (let now = now_check E in
                  if nextPet \<le> now then
                    (let s1 = snd (petAllTokenIds E (allTokenIds petTargetWithTiming)
                                     (sharedLastInteracted petTargetWithTiming) s)
                     in s1\<lparr>stats := (stats s1)\<lparr>nextPetTime := Some nextPet\<rparr>\<rparr>)
                  else
                    (let minutesLeft = - ((- (nextPet - now)) div (60 * 1000)) in
                     case (if minutesLeft mod 30 = 0 then Date_toISOString nextPet else Inr ()) of
                       Inl e \<Rightarrow> tick_catch e s
                     | Inr u \<Rightarrow> s\<lparr>stats := (stats s)\<lparr>nextPetTime := Some nextPet\<rparr>\<rparr>))))"

subsection \<open>start, stop and the two recurring callbacks\<close>

definition startMonitoringLoop :: "service \<Rightarrow> service" where
  "startMonitoringLoop s =
     s\<lparr>monitoringInterval := Some (next_handle s),
       intervals := intervals s @ [(next_handle s, 60 * 1000, MonitoringTick)],
       timeouts := timeouts s @ [(1000, InitialCheck)],
       next_handle := Suc (next_handle s)\<rparr>"

definition startHealthCheck :: "config \<Rightarrow> service \<Rightarrow> service" where
  "startHealthCheck cfg s =
     s\<lparr>healthCheckInterval := Some (next_handle s),
       intervals := intervals s @
         [(next_handle s, healthCheckIntervalMinutes cfg * 60 * 1000, HealthCheck)],
       next_handle := Suc (next_handle s)\<rparr>"

text \<open>The \<open>catch\<close> of \<open>start\<close>: reset both flags, notify, rethrow.\<close>

definition start_catch :: "js_error \<Rightarrow> service \<Rightarrow> (js_error + unit) \<times> service" where
  "start_catch e s =
     (Inl e,
      s\<lparr>this_isRunning := False,
        stats := (stats s)\<lparr>isRunning := False\<rparr>,
        telegram := telegram s @ [sendError ''Failed to start pet sitter'' (Some e)]\<rparr>)"

definition start :: "config \<Rightarrow> chain \<Rightarrow> service \<Rightarrow> (js_error + unit) \<times> service" where
  "start cfg C s =
     (if this_isRunning s then (Inr (), s)
      else if \<not> checkConnection C
      then start_catch (Error ''Failed to connect to Base network'') s
      else
        (case getAllAavegotchisOfOwner C (targetAddress cfg) of
           Inl e \<Rightarrow> start_catch e s
         | Inr aavegotchis \<Rightarrow>
             if length aavegotchis = 0
             then start_catch
                    (Error (''No claimed Aavegotchis found for address '' @ targetAddress cfg)) s
             else
               (let s1 = s\<lparr>this_isRunning := True, stats := (stats s)\<lparr>isRunning := True\<rparr>\<rparr>;
                    s2 = s1\<lparr>telegram := telegram s1 @
                           [sendInfo (emoji_rocket @ '' Pet Sitter started successfully!'' @
                              nl @ nl @
                              ''Target: '' @ targetAddress cfg @ nl @
                              ''Aavegotchis: '' @ toString (int (length aavegotchis)) @ nl @
                              ''Interval: '' @ toString (petIntervalHours cfg) @ '' hours'' @ nl @
                              ''Bot Account: '' @ accountAddress cfg)]\<rparr>
                in (Inr (), startHealthCheck cfg (startMonitoringLoop s2)))))"

text \<open>\<open>clearInterval(handle)\<close> removes the timer with that handle.\<close>

definition clearInterval :: "nat \<Rightarrow> service \<Rightarrow> service" where
  "clearInterval h s = s\<lparr>intervals := filter (\<lambda>t. fst t \<noteq> h) (intervals s)\<rparr>"

definition stop :: "service \<Rightarrow> service" where
  "stop s =
     (if \<not> this_isRunning s then s
      else
        (let s1 = s\<lparr>this_isRunning := False, stats := (stats s)\<lparr>isRunning := False\<rparr>\<rparr>;
             s2 = (case monitoringInterval s1 of
                     None \<Rightarrow> s1
                   | Some h \<Rightarrow> (clearInterval h s1)\<lparr>monitoringInterval := None\<rparr>);
             s3 = (case healthCheckInterval s2 of
                     None \<Rightarrow> s2
                   | Some h \<Rightarrow> (clearInterval h s2)\<lparr>healthCheckInterval := None\<rparr>)
         in s3\<lparr>telegram := telegram s3 @ [sendInfo (emoji_stop @ '' Pet Sitter stopped'')]\<rparr>))"

text \<open>
  The callback of the monitoring interval calls \<open>checkAndPetIfNeeded\<close> under a \<open>try\<close>
  whose \<open>catch\<close> counts an error; the tick catches everything itself, so the callback is
  the tick.
\<close>

definition monitoringTick :: "config \<Rightarrow> env \<Rightarrow> service \<Rightarrow> service" where
  "monitoringTick cfg E s = checkAndPetIfNeeded cfg E s"

text \<open>The callback of the health-check interval.\<close>

definition healthCheck :: "chain \<Rightarrow> service \<Rightarrow> service" where
  "healthCheck C s =
     (if checkConnection C then s
      else s\<lparr>stats := (stats s)\<lparr>errors := errors (stats s) + 1\<rparr>,
             telegram := telegram s @
               [sendError ''Health check failed - connection issues detected''
                  (Some (Error ''Lost connection to Base network''))]\<rparr>)"

subsection \<open>getStatus\<close>

text \<open>
  \<open>getStatus\<close> returns \<open>{ ...this.stats }\<close>: a new object with the own properties of
  \<open>this.stats\<close>. Whether the caller can reach the service's object through the result is
  a question of object identity, so this accessor is modelled over a store of
  \<open>BotStatus\<close> objects: an address is an index into the store, the object literal
  allocates at the end of the store, and the spread copies the property values (all of
  them primitive: booleans, numbers, a string).
\<close>

type_synonym addr = nat

type_synonym store = "BotStatus list"

definition getStatus :: "addr \<Rightarrow> store \<Rightarrow> addr \<times> store" where
  "getStatus this_stats h = (length h, h @ [h ! this_stats])"

text \<open>An assignment to properties of the object at an address: \<open>f\<close> is the change.\<close>

definition mutate :: "addr \<Rightarrow> (BotStatus \<Rightarrow> BotStatus) \<Rightarrow> store \<Rightarrow> store" where
  "mutate a f h = (if a < length h then h[a := f (h ! a)] else h)"

section \<open>Reference notions and concrete inputs\<close>

text \<open>
  The claimed tokens a pass reads successfully, in enumeration order: the reads that
  return a value whose \<open>status\<close> is not zero. This is the list the data model calls
  the fetched records, written independently of the loop.
\<close>

definition claimed_in_order :: "chain \<Rightarrow> int list \<Rightarrow> AavegotchiInfo list" where
  "claimed_in_order C ids =
     List.map_filter
       (\<lambda>tid. case read_getAavegotchi C tid of
                 Inl e \<Rightarrow> None
               | Inr g \<Rightarrow> if status g \<noteq> 0 then Some g else None) ids"

text \<open>A token record with the given id, status and \<open>lastInteracted\<close>.\<close>

definition gotchi_ex :: "int \<Rightarrow> int \<Rightarrow> int \<Rightarrow> AavegotchiInfo" where
  "gotchi_ex tid st t =
     \<lparr>tokenId = tid, name = ''gotchi'', owner = ''0xowner'', status = st, kinship = 0,
      lastInteracted = t, locked = False\<rparr>"

text \<open>Reads that succeed for the listed tokens and throw for every other one.\<close>

definition reads_of :: "(int \<times> AavegotchiInfo) list \<Rightarrow> int \<Rightarrow> js_error + AavegotchiInfo" where
  "reads_of xs tid =
     (case map_of xs tid of None \<Rightarrow> Inl (Error ''execution reverted'') | Some g \<Rightarrow> Inr g)"

text \<open>A ledger on which the owner holds \<open>ids\<close> and every submission is confirmed.\<close>

definition chain_ex :: "nat list \<Rightarrow> (int \<Rightarrow> js_error + AavegotchiInfo) \<Rightarrow> chain" where
  "chain_ex ids rd =
     \<lparr>tokenIdsOfOwner = (\<lambda>a. Inr ids), read_getAavegotchi = rd,
      write_interact = (\<lambda>tokenIds. Inr ''0xhash''), receipt_success = (\<lambda>h. Inr True),
      getBlockNumber = Inr 1\<rparr>"

text \<open>The same ledger, with every submission rejected.\<close>

definition chain_rejecting :: "nat list \<Rightarrow> (int \<Rightarrow> js_error + AavegotchiInfo) \<Rightarrow> chain" where
  "chain_rejecting ids rd =
     (chain_ex ids rd)\<lparr>write_interact := (\<lambda>tokenIds. Inl (Error ''execution reverted''))\<rparr>"

text \<open>A configuration with the default interval of 12 hours (43200 seconds).\<close>

definition cfg_ex :: config where
  "cfg_ex = \<lparr>targetAddress = ''0xowner'', petIntervalHours = 12,
             healthCheckIntervalMinutes = 30, accountAddress = ''0xbot''\<rparr>"

text \<open>An environment of one tick in which every clock reads \<open>now\<close>.\<close>

definition env_ex :: "chain \<Rightarrow> chain \<Rightarrow> int \<Rightarrow> env" where
  "env_ex C C' now =
     \<lparr>chain_now = C, chain_after = C', now_calc = now, now_check = now,
      now_verify = (\<lambda>tid. now), now_pet = now\<rparr>"

section \<open>The timing aggregator: which token supplies the shared time\<close>

lemma fetch_loop_successful:
  "fst (fetch_loop C ids successful shared) = successful @ claimed_in_order C ids"
  by (induction ids arbitrary: successful shared)
     (auto simp: claimed_in_order_def split: sum.splits)

lemma fetch_loop_truthy_kept:
  "truthy shared \<Longrightarrow> snd (fetch_loop C ids successful shared) = shared"
  by (induction ids arbitrary: successful) (auto split: sum.splits)

lemma fetch_loop_first_nonzero:
  "\<not> truthy shared \<Longrightarrow> claimed_in_order C ids = g # gs \<Longrightarrow> lastInteracted g \<noteq> 0 \<Longrightarrow>
   snd (fetch_loop C ids successful shared) = Some (lastInteracted g)"
proof (induction ids arbitrary: successful)
  case Nil
  then show ?case by (simp add: claimed_in_order_def)
next
  case (Cons tid rest)
  show ?case
  proof (cases "read_getAavegotchi C tid")
    case (Inl e)
    with Cons show ?thesis by (simp add: claimed_in_order_def)
  next
    case (Inr gotchi)
    show ?thesis
    proof (cases "status gotchi = 0")
      case True
      with Inr Cons show ?thesis by (simp add: claimed_in_order_def)
    next
      case False
      with Inr Cons.prems have "g = gotchi"
        by (simp add: claimed_in_order_def)
      with Inr False Cons.prems show ?thesis
        by (simp add: fetch_loop_truthy_kept)
    qed
  qed
qed

text \<open>
  The part of the invariant the loop does keep: when the first claimed token read has a
  \<open>lastInteracted\<close> other than zero, that value is the shared time, whatever the later
  tokens hold.
\<close>

lemma shared_is_first_claimed_if_nonzero:
  assumes "getAllAavegotchisOfOwnerWithTiming C a = Inr pt"
    and "successfulAavegotchis pt = g # gs" and "lastInteracted g \<noteq> 0"
  shows "sharedLastInteracted pt = Some (lastInteracted g)"
proof -
  obtain ids32 where ids: "tokenIdsOfOwner C a = Inr ids32"
    using assms(1) by (auto simp: getAllAavegotchisOfOwnerWithTiming_def split: sum.splits)
  show ?thesis
  proof (cases "ids32 = []")
    case True
    with ids assms show ?thesis by (auto simp: getAllAavegotchisOfOwnerWithTiming_def)
  next
    case False
    with ids assms(1) have pt: "pt = \<lparr>address = a, allTokenIds = map int ids32,
        successfulAavegotchis = fst (fetch_loop C (map int ids32) [] None),
        sharedLastInteracted = snd (fetch_loop C (map int ids32) [] None)\<rparr>"
      by (auto simp: getAllAavegotchisOfOwnerWithTiming_def Let_def)
    with assms(2) have "claimed_in_order C (map int ids32) = g # gs"
      by (simp add: fetch_loop_successful)
    with assms(3) pt show ?thesis by (simp add: fetch_loop_first_nonzero)
  qed
qed

text \<open>
  Claim C1. The shared activity time of a batch, when set, is the \<open>lastInteracted\<close> of the
  first claimed token read in enumeration order, and no later claimed token overwrites
  it. The loop tests \<open>!sharedLastInteracted\<close>, and \<open>0n\<close> is falsy: on an owner whose first
  claimed token (id 1, an open portal of status 2) has \<open>lastInteracted = 0\<close> and whose
  second (id 2) has 1000, the pass returns 1000, the value of the second token.
\<close>

theorem C1_zero_time_is_overwritten:
  "getAllAavegotchisOfOwnerWithTiming
     (chain_ex [1, 2] (reads_of [(1, gotchi_ex 1 2 0), (2, gotchi_ex 2 3 1000)])) ''0xowner''
   = Inr \<lparr>address = ''0xowner'', allTokenIds = [1, 2],
          successfulAavegotchis = [gotchi_ex 1 2 0, gotchi_ex 2 3 1000],
          sharedLastInteracted = Some 1000\<rparr>"
  by (simp add: getAllAavegotchisOfOwnerWithTiming_def chain_ex_def reads_of_def gotchi_ex_def)

section \<open>The verifier\<close>

lemma verify_loop_no_before:
  "verify_loop C now None tokenIds updated =
     updated @ filter (\<lambda>tid. case getAavegotchi C tid of
                               Inl e \<Rightarrow> False
                             | Inr g \<Rightarrow> now tid div 1000 - 3600 < lastInteracted g) tokenIds"
  by (induction tokenIds arbitrary: updated) (auto split: sum.splits)

lemma verify_loop_nonzero_before:
  "t \<noteq> 0 \<Longrightarrow>
   verify_loop C now (Some t) tokenIds updated =
     updated @ filter (\<lambda>tid. case getAavegotchi C tid of
                               Inl e \<Rightarrow> False
                             | Inr g \<Rightarrow> t < lastInteracted g) tokenIds"
  by (induction tokenIds arbitrary: updated) (auto split: sum.splits)

lemma verify_loop_zero_before:
  "verify_loop C now (Some 0) tokenIds updated = verify_loop C now None tokenIds updated"
  by (induction tokenIds arbitrary: updated) (auto split: sum.splits)

lemma verify_body_no_before:
  "verify_body C now tokenIds None =
     Inr \<lparr>v_success = (verify_loop C now None tokenIds [] \<noteq> []),
          updatedTokens = verify_loop C now None tokenIds []\<rparr>"
  by (simp add: verify_body_def Let_def)

text \<open>
  With a timing other than zero the comparison is the strict one: a token read again is
  counted exactly when its \<open>lastInteracted\<close> is greater than the timing.
\<close>

lemma verify_nonzero_before:
  assumes "t \<noteq> 0" and "getAavegotchi C tid = Inr g" and "tid \<in> set tokenIds"
    and "verify_body C now tokenIds (Some t) = Inr r"
  shows "(tid \<in> set (updatedTokens r)) = (t < lastInteracted g)"
  using assms
  by (auto simp: verify_body_def Let_def verify_loop_nonzero_before split: sum.splits)

text \<open>
  Claim C4. When a before timestamp \<open>T\<close> was supplied, a token read again is counted as
  updated exactly when its \<open>lastInteracted\<close> is strictly greater than \<open>T\<close>. The code tests
  the timing by truthiness (\<open>preInteractionTiming && ...\<close>, then \<open>!preInteractionTiming\<close>),
  so a supplied \<open>T = 0n\<close> takes the branch for a missing timing: token 2 is read again
  with \<open>lastInteracted = 1700000000\<close>, which is greater than 0, the clock reads
  1800000000000 ms, and the token is not counted.
\<close>

theorem C4_zero_before_is_ignored:
  "getAavegotchi (chain_ex [2] (reads_of [(2, gotchi_ex 2 3 1700000000)])) 2
     = Inr (gotchi_ex 2 3 1700000000)
   \<and> (0::int) < lastInteracted (gotchi_ex 2 3 1700000000)
   \<and> verifyPettingSuccess (chain_ex [2] (reads_of [(2, gotchi_ex 2 3 1700000000)]))
       (\<lambda>tid. 1800000000000) [2] (Some 0)
     = \<lparr>v_success = False, updatedTokens = []\<rparr>"
  by (simp add: verifyPettingSuccess_def verify_body_def getAavegotchi_def Date_toISOString_def
      chain_ex_def reads_of_def gotchi_ex_def)

text \<open>
  Claim C6. When no before timestamp was supplied, a token read again is counted as
  updated exactly when its \<open>lastInteracted\<close> lies within the last hour, that is, when it
  is greater than the clock in whole seconds minus 3600: a token at 3601 seconds before
  now is not counted, a token at 3599 seconds before now is.
\<close>

theorem C6_recent_within_the_hour:
  assumes "getAavegotchi C tid = Inr g" and "tid \<in> set tokenIds"
  shows "((tid \<in> set (updatedTokens (verifyPettingSuccess C now tokenIds None)))
            = (now tid div 1000 - 3600 < lastInteracted g))
       \<and> (lastInteracted g = now tid div 1000 - 3601
            \<longrightarrow> tid \<notin> set (updatedTokens (verifyPettingSuccess C now tokenIds None)))
       \<and> (lastInteracted g = now tid div 1000 - 3599
            \<longrightarrow> tid \<in> set (updatedTokens (verifyPettingSuccess C now tokenIds None)))"
  using assms
  by (simp add: verifyPettingSuccess_def verify_body_no_before verify_loop_no_before)

theorem C6_witness:
  "getAavegotchi (chain_ex [1, 2]
       (reads_of [(1, gotchi_ex 1 3 1799996399), (2, gotchi_ex 2 3 1799996401)])) 1
     = Inr (gotchi_ex 1 3 1799996399)
   \<and> getAavegotchi (chain_ex [1, 2]
       (reads_of [(1, gotchi_ex 1 3 1799996399), (2, gotchi_ex 2 3 1799996401)])) 2
     = Inr (gotchi_ex 2 3 1799996401)
   \<and> 1 \<notin> set (updatedTokens (verifyPettingSuccess
        (chain_ex [1, 2] (reads_of [(1, gotchi_ex 1 3 1799996399), (2, gotchi_ex 2 3 1799996401)]))
        (\<lambda>tid. 1800000000000) [1, 2] None))
   \<and> 2 \<in> set (updatedTokens (verifyPettingSuccess
        (chain_ex [1, 2] (reads_of [(1, gotchi_ex 1 3 1799996399), (2, gotchi_ex 2 3 1799996401)]))
        (\<lambda>tid. 1800000000000) [1, 2] None))"
proof -
  let ?C = "chain_ex [1, 2]
              (reads_of [(1, gotchi_ex 1 3 1799996399), (2, gotchi_ex 2 3 1799996401)])"
  have r1: "getAavegotchi ?C 1 = Inr (gotchi_ex 1 3 1799996399)"
    by (simp add: getAavegotchi_def Date_toISOString_def chain_ex_def reads_of_def gotchi_ex_def)
  have r2: "getAavegotchi ?C 2 = Inr (gotchi_ex 2 3 1799996401)"
    by (simp add: getAavegotchi_def Date_toISOString_def chain_ex_def reads_of_def gotchi_ex_def)
  have m1: "(1::int) \<in> set [1, 2]" and m2: "(2::int) \<in> set [1, 2]" by simp_all
  from C6_recent_within_the_hour [OF r1 m1, of "\<lambda>tid. 1800000000000"]
       C6_recent_within_the_hour [OF r2 m2, of "\<lambda>tid. 1800000000000"] r1 r2
  show ?thesis by (simp add: gotchi_ex_def)
qed

section \<open>The action executor\<close>

lemma petAllTokenIds_interact_calls:
  "interact_calls (snd (petAllTokenIds E tokenIds shared s)) = interact_calls s @ [tokenIds]"
  by (simp add: petAllTokenIds_def Let_def split: sum.splits)

lemma tick_catch_interact_calls: "interact_calls (tick_catch e s) = interact_calls s"
  by (simp add: tick_catch_def)

text \<open>The control transaction, when it runs, changes no counter.\<close>

lemma controlTransaction_stats: "stats (controlTransaction C tokenIds hash s) = stats s"
  by (simp add: controlTransaction_def Let_def split: sum.splits)

lemmas ex_defs = chain_ex_def chain_rejecting_def reads_of_def gotchi_ex_def cfg_ex_def env_ex_def
  new_PetSitterService_def

text \<open>
  Claim C7. When the primary submission throws, the error counter goes up by exactly 1,
  the outcome returned is not a success and counts 0 tokens, one failure notification
  carrying the thrown error is sent, and no success notification is sent.
\<close>

theorem C7_submission_throws:
  assumes "interact (chain_now E) tokenIds = Inl e"
  shows "errors (stats (snd (petAllTokenIds E tokenIds shared s))) = errors (stats s) + 1
       \<and> success (fst (petAllTokenIds E tokenIds shared s)) = False
       \<and> petCount (fst (petAllTokenIds E tokenIds shared s)) = 0
       \<and> error (fst (petAllTokenIds E tokenIds shared s)) = Some (message_or_String e)
       \<and> telegram (snd (petAllTokenIds E tokenIds shared s))
           = telegram s @ [sendError (''Failed to pet '' @ count_Aavegotchis tokenIds) (Some e)]
       \<and> (\<forall>m h. sendSuccess m h \<in> set (telegram (snd (petAllTokenIds E tokenIds shared s)))
                 \<longrightarrow> sendSuccess m h \<in> set (telegram s))
       \<and> totalPets (stats (snd (petAllTokenIds E tokenIds shared s))) = totalPets (stats s)"
  using assms by (simp add: petAllTokenIds_def Let_def)

theorem C7_witness:
  "interact (chain_now (env_ex (chain_rejecting [1, 2, 3] (reads_of [])) (chain_rejecting [1, 2, 3] (reads_of [])) 1800000000000)) [1, 2, 3]
     = Inl (Error ''Failed to pet Aavegotchis: execution reverted'')
   \<and> errors (stats (snd (petAllTokenIds
        (env_ex (chain_rejecting [1, 2, 3] (reads_of [])) (chain_rejecting [1, 2, 3] (reads_of [])) 1800000000000)
        [1, 2, 3] (Some 1000) (new_PetSitterService cfg_ex)))) = 1
   \<and> telegram (snd (petAllTokenIds
        (env_ex (chain_rejecting [1, 2, 3] (reads_of [])) (chain_rejecting [1, 2, 3] (reads_of [])) 1800000000000)
        [1, 2, 3] (Some 1000) (new_PetSitterService cfg_ex)))
     = [sendError ''Failed to pet 3 Aavegotchis''
          (Some (Error ''Failed to pet Aavegotchis: execution reverted''))]"
proof -
  let ?E = "env_ex (chain_rejecting [1, 2, 3] (reads_of [])) (chain_rejecting [1, 2, 3] (reads_of [])) 1800000000000"
  have h: "interact (chain_now ?E) [1, 2, 3]
             = Inl (Error ''Failed to pet Aavegotchis: execution reverted'')"
    by (simp add: interact_def ex_defs)
  have c: "count_Aavegotchis [1, 2, 3] = ''3 Aavegotchis''"
    by code_simp
  from C7_submission_throws [OF h, of "Some 1000" "new_PetSitterService cfg_ex"] h c
  show ?thesis by (simp add: new_PetSitterService_def)
qed

text \<open>
  Claim C8. When the submission succeeds and the verification reports failure, the error
  counter, the total-action counter and the last-action time stay as they were, the
  outcome returned is not a success, and no notification is sent.
\<close>

theorem C8_unverified_is_not_an_error:
  assumes "interact (chain_now E) tokenIds = Inr hash"
    and "\<not> v_success (verifyPettingSuccess (chain_after E) (now_verify E) tokenIds shared)"
  shows "errors (stats (snd (petAllTokenIds E tokenIds shared s))) = errors (stats s)
       \<and> totalPets (stats (snd (petAllTokenIds E tokenIds shared s))) = totalPets (stats s)
       \<and> lastPetTime (stats (snd (petAllTokenIds E tokenIds shared s))) = lastPetTime (stats s)
       \<and> stats (snd (petAllTokenIds E tokenIds shared s)) = stats s
       \<and> success (fst (petAllTokenIds E tokenIds shared s)) = False
       \<and> petCount (fst (petAllTokenIds E tokenIds shared s)) = 0
       \<and> telegram (snd (petAllTokenIds E tokenIds shared s)) = telegram s"
  using assms by (simp add: petAllTokenIds_def Let_def)

theorem C8_witness:
  "interact (chain_now (env_ex (chain_ex [1] (reads_of [(1, gotchi_ex 1 3 1000)]))
               (chain_ex [1] (reads_of [(1, gotchi_ex 1 3 1000)])) 1800000000000)) [1]
     = Inr ''0xhash''
   \<and> \<not> v_success (verifyPettingSuccess (chain_ex [1] (reads_of [(1, gotchi_ex 1 3 1000)]))
                      (\<lambda>tid. 1800000000000) [1] (Some 1000))
   \<and> stats (snd (petAllTokenIds
        (env_ex (chain_ex [1] (reads_of [(1, gotchi_ex 1 3 1000)]))
                (chain_ex [1] (reads_of [(1, gotchi_ex 1 3 1000)])) 1800000000000)
        [1] (Some 1000) (new_PetSitterService cfg_ex)))
     = stats (new_PetSitterService cfg_ex)
   \<and> telegram (snd (petAllTokenIds
        (env_ex (chain_ex [1] (reads_of [(1, gotchi_ex 1 3 1000)]))
                (chain_ex [1] (reads_of [(1, gotchi_ex 1 3 1000)])) 1800000000000)
        [1] (Some 1000) (new_PetSitterService cfg_ex))) = []
   \<and> \<not> success (fst (petAllTokenIds
        (env_ex (chain_ex [1] (reads_of [(1, gotchi_ex 1 3 1000)]))
                (chain_ex [1] (reads_of [(1, gotchi_ex 1 3 1000)])) 1800000000000)
        [1] (Some 1000) (new_PetSitterService cfg_ex)))"
proof -
  let ?C = "chain_ex [1] (reads_of [(1, gotchi_ex 1 3 1000)])"
  let ?E = "env_ex ?C ?C 1800000000000"
  have h: "interact (chain_now ?E) [1] = Inr ''0xhash''"
    by (simp add: interact_def ex_defs)
  have v: "\<not> v_success (verifyPettingSuccess (chain_after ?E) (now_verify ?E) [1] (Some 1000))"
    by (simp add: verifyPettingSuccess_def verify_body_def getAavegotchi_def
        Date_toISOString_def ex_defs)
  from C8_unverified_is_not_an_error [OF h v, of "new_PetSitterService cfg_ex"] h v
  show ?thesis by (simp add: ex_defs)
qed

text \<open>
  Claim C5. When the body of the verification throws (as opposed to a read of one token
  failing, which the loop catches), \<open>verifyPettingSuccess\<close> returns a success with no
  updated token; it returns a value in every case, so nothing is thrown to the caller;
  the action run that called it is a success, leaves the error counter as it was and
  sends no failure notification. In the code the body throws when the timing handed in
  is truthy and lies outside the range of \<open>Date\<close>.
\<close>

theorem C5_verification_throw_is_success:
  assumes "verify_body (chain_after E) (now_verify E) tokenIds pre = Inl e"
  shows "verifyPettingSuccess (chain_after E) (now_verify E) tokenIds pre
           = \<lparr>v_success = True, updatedTokens = []\<rparr>
       \<and> (\<forall>hash. interact (chain_now E) tokenIds = Inr hash \<longrightarrow>
             success (fst (petAllTokenIds E tokenIds pre s))
           \<and> errors (stats (snd (petAllTokenIds E tokenIds pre s))) = errors (stats s)
           \<and> (\<forall>m err. sendError m err \<in> set (telegram (snd (petAllTokenIds E tokenIds pre s)))
                 \<longrightarrow> sendError m err \<in> set (telegram s)))"
  using assms by (simp add: verifyPettingSuccess_def petAllTokenIds_def Let_def)

theorem C5_witness:
  "verify_body (chain_ex [1] (reads_of [(1, gotchi_ex 1 3 1000)])) (\<lambda>tid. 1800000000000) [1]
       (Some 9000000000000)
     = Inl (Error ''Invalid time value'')
   \<and> verifyPettingSuccess (chain_ex [1] (reads_of [(1, gotchi_ex 1 3 1000)]))
       (\<lambda>tid. 1800000000000) [1] (Some 9000000000000)
     = \<lparr>v_success = True, updatedTokens = []\<rparr>
   \<and> errors (stats (snd (petAllTokenIds
        (env_ex (chain_ex [1] (reads_of [(1, gotchi_ex 1 3 1000)]))
                (chain_ex [1] (reads_of [(1, gotchi_ex 1 3 1000)])) 1800000000000)
        [1] (Some 9000000000000) (new_PetSitterService cfg_ex)))) = 0"
proof -
  let ?C = "chain_ex [1] (reads_of [(1, gotchi_ex 1 3 1000)])"
  let ?E = "env_ex ?C ?C 1800000000000"
  have b: "verify_body (chain_after ?E) (now_verify ?E) [1] (Some 9000000000000)
             = Inl (Error ''Invalid time value'')"
    by (simp add: verify_body_def Date_toISOString_def ex_defs)
  have h: "interact (chain_now ?E) [1] = Inr ''0xhash''"
    by (simp add: interact_def ex_defs)
  from C5_verification_throw_is_success [OF b, of "new_PetSitterService cfg_ex"] b h
  show ?thesis by (simp add: ex_defs)
qed

section \<open>The scheduler tick\<close>

lemma getAll_allTokenIds:
  assumes "tokenIdsOfOwner C a = Inr ids32"
  shows "\<exists>pt. getAllAavegotchisOfOwnerWithTiming C a = Inr pt \<and> allTokenIds pt = map int ids32
            \<and> successfulAavegotchis pt = claimed_in_order C (map int ids32)"
  using assms
  by (simp add: getAllAavegotchisOfOwnerWithTiming_def Let_def fetch_loop_successful
      claimed_in_order_def)

lemma claimed_none_if_all_fail:
  "(\<forall>tid. \<exists>e. read_getAavegotchi C tid = Inl e) \<Longrightarrow> claimed_in_order C ids = []"
proof (induction ids)
  case Nil
  show ?case by (simp add: claimed_in_order_def)
next
  case (Cons tid rest)
  from Cons.prems obtain e where "read_getAavegotchi C tid = Inl e" by blast
  with Cons show ?case by (simp add: claimed_in_order_def)
qed

text \<open>The tick submits exactly when the list of ids is not empty and the time is due.\<close>

lemma tick_submits:
  assumes "getAllAavegotchisOfOwnerWithTiming (chain_now E) (targetAddress cfg) = Inr pt"
  shows "interact_calls (checkAndPetIfNeeded cfg E s) =
           (case calculateNextPetTimeWithTiming cfg (now_calc E) pt of
              Inl e \<Rightarrow> interact_calls s
            | Inr nextPet \<Rightarrow>
                if allTokenIds pt \<noteq> [] \<and> nextPet \<le> now_check E
                then interact_calls s @ [allTokenIds pt] else interact_calls s)"
  using assms
  by (simp add: checkAndPetIfNeeded_def Let_def petAllTokenIds_interact_calls
      tick_catch_interact_calls split: sum.splits)

text \<open>
  Claim C2. Every id the enumeration returns is in \<open>allTokenIds\<close>, whatever the reads of
  the single tokens do, also when all of them fail and the list of fetched records is
  empty; and the only submission a tick makes has all of these ids as its argument: a
  failed read takes a token out of the fetched records, never out of the target of the
  submission.
\<close>

theorem C2_all_ids_are_the_target:
  assumes "tokenIdsOfOwner (chain_now E) (targetAddress cfg) = Inr ids32"
  shows "\<exists>pt. getAllAavegotchisOfOwnerWithTiming (chain_now E) (targetAddress cfg) = Inr pt
           \<and> allTokenIds pt = map int ids32
           \<and> ((\<forall>tid. \<exists>e. read_getAavegotchi (chain_now E) tid = Inl e)
                \<longrightarrow> successfulAavegotchis pt = [])
           \<and> (interact_calls (checkAndPetIfNeeded cfg E s) = interact_calls s
               \<or> interact_calls (checkAndPetIfNeeded cfg E s) = interact_calls s @ [map int ids32])
           \<and> (\<forall>nextPet. ids32 \<noteq> []
                \<and> calculateNextPetTimeWithTiming cfg (now_calc E) pt = Inr nextPet
                \<and> nextPet \<le> now_check E
                \<longrightarrow> interact_calls (checkAndPetIfNeeded cfg E s)
                      = interact_calls s @ [map int ids32])"
proof -
  from getAll_allTokenIds [OF assms] obtain pt where
    pt: "getAllAavegotchisOfOwnerWithTiming (chain_now E) (targetAddress cfg) = Inr pt"
    and ids: "allTokenIds pt = map int ids32"
    and succ: "successfulAavegotchis pt = claimed_in_order (chain_now E) (map int ids32)"
    by blast
  have "interact_calls (checkAndPetIfNeeded cfg E s) = interact_calls s
      \<or> interact_calls (checkAndPetIfNeeded cfg E s) = interact_calls s @ [map int ids32]"
    using tick_submits [OF pt, of s] ids by (auto split: sum.splits if_splits)
  moreover have "\<forall>nextPet. ids32 \<noteq> []
        \<and> calculateNextPetTimeWithTiming cfg (now_calc E) pt = Inr nextPet
        \<and> nextPet \<le> now_check E
        \<longrightarrow> interact_calls (checkAndPetIfNeeded cfg E s) = interact_calls s @ [map int ids32]"
    using tick_submits [OF pt, of s] ids by auto
  moreover have "(\<forall>tid. \<exists>e. read_getAavegotchi (chain_now E) tid = Inl e)
        \<longrightarrow> successfulAavegotchis pt = []"
    using succ by (simp add: claimed_none_if_all_fail)
  ultimately show ?thesis using pt ids by blast
qed

theorem C2_witness:
  "tokenIdsOfOwner (chain_ex [1, 2, 3, 4, 5] (reads_of [])) (targetAddress cfg_ex)
     = Inr [1, 2, 3, 4, 5]
   \<and> (\<forall>tid. \<exists>e. read_getAavegotchi (chain_ex [1, 2, 3, 4, 5] (reads_of [])) tid = Inl e)
   \<and> getAllAavegotchisOfOwnerWithTiming (chain_ex [1, 2, 3, 4, 5] (reads_of [])) ''0xowner''
     = Inr \<lparr>address = ''0xowner'', allTokenIds = [1, 2, 3, 4, 5],
            successfulAavegotchis = [], sharedLastInteracted = None\<rparr>
   \<and> interact_calls (checkAndPetIfNeeded cfg_ex
        ((env_ex (chain_ex [1, 2, 3, 4, 5] (reads_of [])) (chain_ex [1, 2, 3, 4, 5] (reads_of []))
            1800000000000)\<lparr>now_check := 1800043200000\<rparr>)
        (new_PetSitterService cfg_ex))
     = [[1, 2, 3, 4, 5]]"
proof -
  let ?C = "chain_ex [1, 2, 3, 4, 5] (reads_of [])"
  let ?E = "(env_ex ?C ?C 1800000000000)\<lparr>now_check := 1800043200000\<rparr>"
  have h: "tokenIdsOfOwner (chain_now ?E) (targetAddress cfg_ex) = Inr [1, 2, 3, 4, 5]"
    by (simp add: ex_defs)
  have f: "\<forall>tid. \<exists>e. read_getAavegotchi ?C tid = Inl e"
    by (simp add: ex_defs)
  have g: "getAllAavegotchisOfOwnerWithTiming ?C ''0xowner''
     = Inr \<lparr>address = ''0xowner'', allTokenIds = [1, 2, 3, 4, 5],
            successfulAavegotchis = [], sharedLastInteracted = None\<rparr>"
    by (simp add: getAllAavegotchisOfOwnerWithTiming_def ex_defs)
  have n: "calculateNextPetTimeWithTiming cfg_ex 1800000000000
             \<lparr>address = ''0xowner'', allTokenIds = [1, 2, 3, 4, 5],
              successfulAavegotchis = [], sharedLastInteracted = None\<rparr> = Inr 1800043200000"
    by (simp add: calculateNextPetTimeWithTiming_def petIntervalMs_def ex_defs)
  from C2_all_ids_are_the_target [OF h, of "new_PetSitterService cfg_ex"] g n h f
  show ?thesis by (simp add: ex_defs)
qed


section \<open>The next action time\<close>

lemma next_pet_time_from_shared:
  assumes "allTokenIds pt \<noteq> []" and "sharedLastInteracted pt = Some t" and "t \<noteq> 0"
    and "\<bar>t * 1000\<bar> \<le> 8640000000000000"
  shows "calculateNextPetTimeWithTiming cfg now pt = Inr (t * 1000 + petIntervalMs cfg)"
  using assms by (simp add: calculateNextPetTimeWithTiming_def Date_toISOString_def)

lemma next_pet_time_fallback:
  assumes "sharedLastInteracted pt = None"
  shows "calculateNextPetTimeWithTiming cfg now pt = Inr (now + petIntervalMs cfg)"
  using assms by (simp add: calculateNextPetTimeWithTiming_def)

text \<open>
  The scenario of the specification: ids 1, 2, 3, only token 2 read (claimed, activity
  time 1000), a cooldown of 12 hours, the clock at 44300 seconds. The shared time is
  1000, the next action time 44200 seconds, and the tick submits all three ids.
\<close>

lemma scenario_partial_fetch:
  "getAllAavegotchisOfOwnerWithTiming (chain_ex [1, 2, 3] (reads_of [(2, gotchi_ex 2 3 1000)]))
       ''0xowner''
     = Inr \<lparr>address = ''0xowner'', allTokenIds = [1, 2, 3],
            successfulAavegotchis = [gotchi_ex 2 3 1000], sharedLastInteracted = Some 1000\<rparr>
   \<and> calculateNextPetTimeWithTiming cfg_ex 44300000
        \<lparr>address = ''0xowner'', allTokenIds = [1, 2, 3],
         successfulAavegotchis = [gotchi_ex 2 3 1000], sharedLastInteracted = Some 1000\<rparr>
     = Inr 44200000
   \<and> interact_calls (checkAndPetIfNeeded cfg_ex
        (env_ex (chain_ex [1, 2, 3] (reads_of [(2, gotchi_ex 2 3 1000)]))
                (chain_ex [1, 2, 3] (reads_of [(2, gotchi_ex 2 3 1000)])) 44300000)
        (new_PetSitterService cfg_ex))
     = [[1, 2, 3]]"
proof -
  let ?C = "chain_ex [1, 2, 3] (reads_of [(2, gotchi_ex 2 3 1000)])"
  let ?pt = "\<lparr>address = ''0xowner'', allTokenIds = [1, 2, 3],
              successfulAavegotchis = [gotchi_ex 2 3 1000], sharedLastInteracted = Some 1000\<rparr>"
  have g: "getAllAavegotchisOfOwnerWithTiming ?C ''0xowner'' = Inr ?pt"
    by (simp add: getAllAavegotchisOfOwnerWithTiming_def ex_defs)
  have n: "calculateNextPetTimeWithTiming cfg_ex 44300000 ?pt = Inr 44200000"
    by (simp add: calculateNextPetTimeWithTiming_def Date_toISOString_def petIntervalMs_def
        ex_defs)
  have g': "getAllAavegotchisOfOwnerWithTiming (chain_now (env_ex ?C ?C 44300000))
              (targetAddress cfg_ex) = Inr ?pt"
    using g by (simp add: env_ex_def cfg_ex_def)
  have "interact_calls (checkAndPetIfNeeded cfg_ex (env_ex ?C ?C 44300000)
          (new_PetSitterService cfg_ex)) = [[1, 2, 3]]"
    using tick_submits [OF g', of "new_PetSitterService cfg_ex"] n
    by (simp add: env_ex_def new_PetSitterService_def)
  with g n show ?thesis by simp
qed

text \<open>
  Claim C3. With a non-empty list of ids the next action time is the shared activity
  time plus the cooldown when the shared time is present, and the clock plus the
  cooldown when it is absent, and the action fires exactly when the clock has reached
  it. The code tests the shared time by truthiness (\<open>if (petTarget.sharedLastInteracted)\<close>),
  so a shared time that is present and equal to \<open>0n\<close> takes the fallback: the owner's only
  token (id 1, an open portal) has \<open>lastInteracted = 0\<close>, the cooldown is 12 hours, the
  clock reads 44300 seconds; the shared time is 0, the shared time plus the cooldown is
  43200 seconds and has passed, the older \<open>calculateNextPetTime\<close> returns exactly that,
  but the function returns 87500 seconds and the tick submits nothing.
\<close>

theorem C3_zero_shared_time_takes_fallback:
  "getAllAavegotchisOfOwnerWithTiming (chain_ex [1] (reads_of [(1, gotchi_ex 1 2 0)])) ''0xowner''
     = Inr \<lparr>address = ''0xowner'', allTokenIds = [1],
            successfulAavegotchis = [gotchi_ex 1 2 0], sharedLastInteracted = Some 0\<rparr>
   \<and> calculateNextPetTimeWithTiming cfg_ex 44300000
        \<lparr>address = ''0xowner'', allTokenIds = [1],
         successfulAavegotchis = [gotchi_ex 1 2 0], sharedLastInteracted = Some 0\<rparr>
     = Inr 87500000
   \<and> 0 * 1000 + petIntervalMs cfg_ex = 43200000
   \<and> calculateNextPetTime cfg_ex 44300000 [gotchi_ex 1 2 0] = 43200000
   \<and> interact_calls (checkAndPetIfNeeded cfg_ex
        (env_ex (chain_ex [1] (reads_of [(1, gotchi_ex 1 2 0)]))
                (chain_ex [1] (reads_of [(1, gotchi_ex 1 2 0)])) 44300000)
        (new_PetSitterService cfg_ex))
     = []"
proof -
  let ?C = "chain_ex [1] (reads_of [(1, gotchi_ex 1 2 0)])"
  let ?pt = "\<lparr>address = ''0xowner'', allTokenIds = [1],
              successfulAavegotchis = [gotchi_ex 1 2 0], sharedLastInteracted = Some 0\<rparr>"
  have g: "getAllAavegotchisOfOwnerWithTiming ?C ''0xowner'' = Inr ?pt"
    by (simp add: getAllAavegotchisOfOwnerWithTiming_def ex_defs)
  have n: "calculateNextPetTimeWithTiming cfg_ex 44300000 ?pt = Inr 87500000"
    by (simp add: calculateNextPetTimeWithTiming_def petIntervalMs_def ex_defs)
  have i: "0 * 1000 + petIntervalMs cfg_ex = 43200000"
    by (simp add: petIntervalMs_def cfg_ex_def)
  have o: "calculateNextPetTime cfg_ex 44300000 [gotchi_ex 1 2 0] = 43200000"
    by (simp add: calculateNextPetTime_def petIntervalMs_def cfg_ex_def gotchi_ex_def)
  have g': "getAllAavegotchisOfOwnerWithTiming (chain_now (env_ex ?C ?C 44300000))
              (targetAddress cfg_ex) = Inr ?pt"
    using g by (simp add: env_ex_def cfg_ex_def)
  have "interact_calls (checkAndPetIfNeeded cfg_ex (env_ex ?C ?C 44300000)
          (new_PetSitterService cfg_ex)) = []"
    using tick_submits [OF g', of "new_PetSitterService cfg_ex"] n
    by (simp add: env_ex_def new_PetSitterService_def)
  with g n i o show ?thesis by simp
qed

section \<open>The status accessor\<close>

text \<open>
  Claim C9. \<open>getStatus\<close> returns a copy of the state, not the object the service holds:
  the object returned is at another address and has the same values, a second call
  returns the same values again, and assigning to properties of a returned object
  changes neither the service's object nor what a later call returns.
\<close>

theorem C9_status_is_a_copy:
  assumes "this_stats < length h"
  shows "fst (getStatus this_stats h) \<noteq> this_stats
       \<and> snd (getStatus this_stats h) ! fst (getStatus this_stats h) = h ! this_stats
       \<and> snd (getStatus this_stats h) ! this_stats = h ! this_stats
       \<and> snd (getStatus this_stats (snd (getStatus this_stats h)))
           ! fst (getStatus this_stats (snd (getStatus this_stats h)))
         = snd (getStatus this_stats h) ! fst (getStatus this_stats h)
       \<and> mutate (fst (getStatus this_stats h)) f (snd (getStatus this_stats h)) ! this_stats
         = h ! this_stats
       \<and> snd (getStatus this_stats
                (mutate (fst (getStatus this_stats h)) f (snd (getStatus this_stats h))))
           ! fst (getStatus this_stats
                (mutate (fst (getStatus this_stats h)) f (snd (getStatus this_stats h))))
         = h ! this_stats"
  using assms by (simp add: getStatus_def mutate_def nth_append)

theorem C9_witness:
  "(0::nat) < length [stats (new_PetSitterService cfg_ex)]
   \<and> fst (getStatus 0 [stats (new_PetSitterService cfg_ex)]) = 1
   \<and> mutate 1 (\<lambda>st. st\<lparr>errors := 99, totalPets := 7\<rparr>)
        (snd (getStatus 0 [stats (new_PetSitterService cfg_ex)])) ! 0
     = stats (new_PetSitterService cfg_ex)
   \<and> snd (getStatus 0 (mutate 1 (\<lambda>st. st\<lparr>errors := 99, totalPets := 7\<rparr>)
        (snd (getStatus 0 [stats (new_PetSitterService cfg_ex)])))) ! 2
     = stats (new_PetSitterService cfg_ex)"
proof -
  have h: "(0::nat) < length [stats (new_PetSitterService cfg_ex)]" by simp
  have a: "fst (getStatus 0 [stats (new_PetSitterService cfg_ex)]) = 1"
    by (simp add: getStatus_def)
  have b: "fst (getStatus 0 (mutate 1 (\<lambda>st. st\<lparr>errors := 99, totalPets := 7\<rparr>)
        (snd (getStatus 0 [stats (new_PetSitterService cfg_ex)])))) = 2"
    by (simp add: getStatus_def mutate_def)
  from C9_status_is_a_copy [OF h, of "\<lambda>st. st\<lparr>errors := 99, totalPets := 7\<rparr>"] a b
  show ?thesis by simp
qed

section \<open>start and stop\<close>

text \<open>
  Claim C10. \<open>start\<close> on a running service returns normally and leaves the whole state
  as it was, whatever the ledger would answer: no notification, no timer, no flag is
  touched. \<open>stop\<close> on a service that is not running returns the state as it was.
\<close>

theorem C10_start_and_stop_are_guarded:
  "(this_isRunning s \<longrightarrow> start cfg C s = (Inr (), s))
   \<and> (\<not> this_isRunning s \<longrightarrow> stop s = s)"
  by (simp add: start_def stop_def)

theorem C10_witness:
  "this_isRunning (snd (start cfg_ex (chain_ex [1] (reads_of [(1, gotchi_ex 1 3 1000)]))
                          (new_PetSitterService cfg_ex)))
   \<and> start cfg_ex (chain_ex [] (reads_of []))
        (snd (start cfg_ex (chain_ex [1] (reads_of [(1, gotchi_ex 1 3 1000)]))
                (new_PetSitterService cfg_ex)))
     = (Inr (), snd (start cfg_ex (chain_ex [1] (reads_of [(1, gotchi_ex 1 3 1000)]))
                       (new_PetSitterService cfg_ex)))
   \<and> \<not> this_isRunning (new_PetSitterService cfg_ex)
   \<and> stop (new_PetSitterService cfg_ex) = new_PetSitterService cfg_ex"
proof -
  let ?s = "snd (start cfg_ex (chain_ex [1] (reads_of [(1, gotchi_ex 1 3 1000)]))
                   (new_PetSitterService cfg_ex))"
  have r: "this_isRunning ?s"
    by (simp add: start_def checkConnection_def getAllAavegotchisOfOwner_def
        startHealthCheck_def startMonitoringLoop_def Let_def ex_defs)
  have n: "\<not> this_isRunning (new_PetSitterService cfg_ex)"
    by (simp add: new_PetSitterService_def)
  from C10_start_and_stop_are_guarded [of ?s cfg_ex "chain_ex [] (reads_of [])"]
       C10_start_and_stop_are_guarded [of "new_PetSitterService cfg_ex" cfg_ex "chain_ex [] (reads_of [])"]
       r n
  show ?thesis by simp
qed

end
